theory Spec2Isabelle
  imports Complex_Main "HOL-Library.Multiset"
begin

section \<open>Python values and exceptions\<close>

text \<open>
  The exceptions the modelled code can raise.  A function that can raise returns
  \<open>error + 'a\<close>, with \<open>Inl\<close> for the exception.
\<close>

datatype error = IndexError | KeyError | ZeroDivisionError | ValueError

text \<open>
  An entry of the distance matrix of \<open>floyd.py\<close>: a Python \<open>int\<close> (edge weights and their
  sums; Python integers are unbounded) or \<open>float('inf')\<close>.  The only operations the engine
  applies are \<open>+\<close> and \<open><\<close>/\<open>></\<close>; on these values \<open>inf + x = inf\<close> and \<open>x < inf\<close>
  for every integer \<open>x\<close>, and no NaN can arise.
\<close>

datatype dist = Fin int | Infty

fun dist_add :: "dist \<Rightarrow> dist \<Rightarrow> dist" where
  "dist_add (Fin a) (Fin b) = Fin (a + b)"
| "dist_add _ _ = Infty"

fun dist_less :: "dist \<Rightarrow> dist \<Rightarrow> bool" where
  "dist_less (Fin a) (Fin b) = (a < b)"
| "dist_less (Fin a) Infty = True"
| "dist_less Infty _ = False"

text \<open>
  The values \<open>reconstruir_caminho_floyd\<close> can return: the tuple \<open>(None, float('inf'))\<close>
  is \<open>PyTuple PyNone PyInf\<close>, a list of labels is \<open>PyList\<close>.
\<close>

datatype pyval = PyNone | PyInf | PyList "int list" | PyTuple pyval pyval

section \<open>The graph container, as the engine reads it\<close>

text \<open>
  \<open>grafo.py\<close> is not part of the sources.  The engine reads a graph only through
  \<open>g.vertices()\<close> and \<open>g.edges()\<close>; the model takes the two enumerations: the labels
  (\<open>element()\<close>) of the vertices, and for each edge the labels of its endpoints and its
  weight (\<open>element()\<close>).  A vertex is identified with its label (labels are unique).
\<close>

record graph =
  g_vertices :: "int list"
  g_edges :: "(int \<times> int \<times> int) list"

text \<open>\<open>criar_grafo\<close>: edges with an unknown endpoint are skipped (with a printed warning).\<close>

definition criar_grafo :: "int list \<Rightarrow> (int \<times> int \<times> int) list \<Rightarrow> graph" where
  "criar_grafo vertices_nomes arestas_dados =
     \<lparr> g_vertices = vertices_nomes,
       g_edges = filter (\<lambda>(u_nome, v_nome, peso).
                   u_nome \<in> set vertices_nomes \<and> v_nome \<in> set vertices_nomes) arestas_dados \<rparr>"

section \<open>floyd\_warshall\<close>

type_synonym dist_matrix = "dist list list"
type_synonym prox_matrix = "nat option list list"

definition set_cell :: "'a list list \<Rightarrow> nat \<Rightarrow> nat \<Rightarrow> 'a \<Rightarrow> 'a list list" where
  "set_cell m i j x = m[i := (m ! i)[j := x]]"

text \<open>\<open>v_para_idx[v]\<close>: the position of a vertex in the sorted list; a missing key raises.\<close>

fun index_of_label :: "int list \<Rightarrow> int \<Rightarrow> nat option" where
  "index_of_label [] x = None"
| "index_of_label (y # ys) x =
     (if x = y then Some 0 else map_option Suc (index_of_label ys x))"

text \<open>Lines 30-32: the diagonal.\<close>

definition init_diag :: "nat \<Rightarrow> dist_matrix \<times> prox_matrix" where
  "init_diag n =
     fold (\<lambda>i (dst, prx). (set_cell dst i i (Fin 0), set_cell prx i i (Some i)))
       [0..<n]
       (replicate n (replicate n Infty), replicate n (replicate n None))"

text \<open>Lines 34-40: one edge of the seeding loop.\<close>

definition seed_edge ::
  "int list \<Rightarrow> (int \<times> int \<times> int) \<Rightarrow> error + dist_matrix \<times> prox_matrix
     \<Rightarrow> error + dist_matrix \<times> prox_matrix" where
  "seed_edge vertices aresta st =
     (case st of Inl e \<Rightarrow> Inl e
      | Inr (dst, prx) \<Rightarrow>
         (case aresta of (u, v, w) \<Rightarrow>
           (case (index_of_label vertices u, index_of_label vertices v) of
              (Some i, Some j) \<Rightarrow>
                 if dist_less (Fin w) (dst ! i ! j)
                 then Inr (set_cell dst i j (Fin w), set_cell prx i j (Some j))
                 else Inr (dst, prx)
            | _ \<Rightarrow> Inl KeyError)))"

text \<open>Lines 46-50: the body of the triple loop.\<close>

definition relax :: "nat \<Rightarrow> nat \<Rightarrow> nat \<Rightarrow> dist_matrix \<times> prox_matrix \<Rightarrow> dist_matrix \<times> prox_matrix" where
  "relax k i j st =
     (case st of (dst, prx) \<Rightarrow>
        let custo_via_k = dist_add (dst ! i ! k) (dst ! k ! j)
        in if dist_less custo_via_k (dst ! i ! j)
           then (set_cell dst i j custo_via_k, set_cell prx i j (prx ! i ! k))
           else (dst, prx))"

definition relax_all :: "nat \<Rightarrow> dist_matrix \<times> prox_matrix \<Rightarrow> dist_matrix \<times> prox_matrix" where
  "relax_all n st =
     fold (\<lambda>k. fold (\<lambda>i. fold (\<lambda>j. relax k i j) [0..<n]) [0..<n]) [0..<n] st"

text \<open>
  The result of \<open>floyd_warshall\<close>: the returned triple, and the labels for which the
  negative-cycle alert was printed (lines 52-54), in the order of printing.
\<close>

record fw_result =
  fw_dist :: dist_matrix
  fw_prox :: prox_matrix
  fw_vertices :: "int list"
  fw_alertas :: "int list"

definition floyd_warshall :: "graph \<Rightarrow> error + fw_result" where
  "floyd_warshall g =
     (let vertices = sort (g_vertices g);
          n = length vertices
      in case fold (seed_edge vertices) (g_edges g) (Inr (init_diag n)) of
           Inl e \<Rightarrow> Inl e
         | Inr st \<Rightarrow>
            (case relax_all n st of (dst, prx) \<Rightarrow>
               Inr \<lparr> fw_dist = dst, fw_prox = prx, fw_vertices = vertices,
                     fw_alertas = map (\<lambda>i. vertices ! i)
                                    (filter (\<lambda>i. dist_less (dst ! i ! i) (Fin 0)) [0..<n]) \<rparr>))"

section \<open>reconstruir\_caminho\_floyd\<close>

text \<open>
  The \<open>while\<close> loop of lines 65-70, entered with \<open>atual_idx\<close> and the labels collected so
  far, up to the \<open>return\<close> of line 70 or 74.  Nothing in the function bounds the walk, so
  the loop is a partial function: \<open>None\<close> is a walk that never ends.  A read outside a list
  raises \<open>IndexError\<close>.
\<close>

partial_function (option) walk ::
  "nat \<Rightarrow> prox_matrix \<Rightarrow> int list \<Rightarrow> nat \<Rightarrow> int list \<Rightarrow> (error + pyval) option" where
  "walk j prox vertices atual_idx caminho =
     (if atual_idx \<noteq> j then
        (if length vertices \<le> atual_idx then Some (Inl IndexError)
         else if length prox \<le> atual_idx then Some (Inl IndexError)
         else if length (prox ! atual_idx) \<le> j then Some (Inl IndexError)
         else (case prox ! atual_idx ! j of
                 None \<Rightarrow> Some (Inr (PyTuple PyNone PyInf))
               | Some nxt \<Rightarrow> walk j prox vertices nxt (caminho @ [vertices ! atual_idx])))
      else if length vertices \<le> j then Some (Inl IndexError)
      else Some (Inr (PyList (caminho @ [vertices ! j]))))"

declare walk.simps [code]

definition reconstruir_caminho_floyd ::
  "nat \<Rightarrow> nat \<Rightarrow> prox_matrix \<Rightarrow> int list \<Rightarrow> (error + pyval) option" where
  "reconstruir_caminho_floyd i j prox vertices =
     (if length prox \<le> i then Some (Inl IndexError)
      else if length (prox ! i) \<le> j then Some (Inl IndexError)
      else if prox ! i ! j = None then Some (Inr (PyTuple PyNone PyInf))
      else walk j prox vertices i [])"

text \<open>The scenario of the \<open>__main__\<close> block of \<open>floyd.py\<close> (lines 102-117).\<close>

definition lista_vertices :: "int list" where
  "lista_vertices = [1, 2, 3, 4, 5, 6]"

definition lista_arestas :: "(int \<times> int \<times> int) list" where
  "lista_arestas =
     [(1, 2, 2), (3, 1, -4), (3, 2, 3), (3, 4, -7), (4, 1, 2),
      (5, 3, 10), (5, 4, 5), (5, 6, 4), (6, 1, 5), (6, 4, 1)]"

definition G_direcionado :: graph where
  "G_direcionado = criar_grafo lista_vertices lista_arestas"

text \<open>
  A next-hop matrix over \<open>n\<close> canonical indices: \<open>n\<close> rows of \<open>n\<close> entries, each unset
  (\<open>None\<close>) or a canonical index.
\<close>

definition wf_prox :: "nat \<Rightarrow> prox_matrix \<Rightarrow> bool" where
  "wf_prox n prox =
     (length prox = n \<and>
      list_all (\<lambda>row. length row = n \<and> list_all (\<lambda>x. case x of None \<Rightarrow> True | Some k \<Rightarrow> k < n) row) prox)"

text \<open>
  \<open>unset_ahead prox j a\<close>: the walk towards \<open>j\<close> that stands at \<open>a\<close> meets an unset
  next-hop entry before it reaches \<open>j\<close>.  \<open>reaches prox j a ls\<close>: it reaches \<open>j\<close>, through
  the indices \<open>ls\<close>.
\<close>

inductive unset_ahead :: "prox_matrix \<Rightarrow> nat \<Rightarrow> nat \<Rightarrow> bool" for prox j where
  unset_here: "a \<noteq> j \<Longrightarrow> prox ! a ! j = None \<Longrightarrow> unset_ahead prox j a"
| unset_later: "a \<noteq> j \<Longrightarrow> prox ! a ! j = Some b \<Longrightarrow> unset_ahead prox j b \<Longrightarrow> unset_ahead prox j a"

inductive reaches :: "prox_matrix \<Rightarrow> nat \<Rightarrow> nat \<Rightarrow> nat list \<Rightarrow> bool" for prox j where
  reaches_end: "reaches prox j j [j]"
| reaches_step: "a \<noteq> j \<Longrightarrow> prox ! a ! j = Some b \<Longrightarrow> reaches prox j b ls \<Longrightarrow> reaches prox j a (a # ls)"

section \<open>Python numbers\<close>

text \<open>
  The generators compute with Python's \<open>int\<close> (unbounded) and \<open>float\<close> (IEEE binary64).  A
  float is the rational number it denotes.  Every floating-point operation returns the exact
  result rounded to 53 significant bits, to the nearest representable value and to the even
  one at a tie (\<open>fl\<close>).  The exponent range of binary64 is not modelled: results of magnitude
  \<open>2\<^sup>1\<^sup>0\<^sup>2\<^sup>4\<close> and above, or below \<open>2\<^sup>-\<^sup>1\<^sup>0\<^sup>2\<^sup>2\<close>, are rounded like every other value.
\<close>

text \<open>\<open>bit_length m\<close>: the number of binary digits of \<open>m > 0\<close>.\<close>

function bit_length :: "int \<Rightarrow> nat" where
  "bit_length m = (if m \<le> 0 then 0 else Suc (bit_length (m div 2)))"
  by pat_completeness auto
termination
  by (relation "measure nat") auto

declare bit_length.simps [simp del]

text \<open>The exponent \<open>e\<close> of a number \<open>x \<noteq> 0\<close>: \<open>2\<^sup>e \<le> |x| < 2\<^sup>e\<^sup>+\<^sup>1\<close>.\<close>

definition float_exp :: "rat \<Rightarrow> int" where
  "float_exp x =
     (case quotient_of \<bar>x\<bar> of (p, q) \<Rightarrow>
        let d = int (bit_length p) - int (bit_length q)
        in if 2 powi d \<le> \<bar>x\<bar> then d else d - 1)"

text \<open>To the nearest integer, a tie to the even one.\<close>

definition round_half_even :: "rat \<Rightarrow> int" where
  "round_half_even x =
     (let f = \<lfloor>x\<rfloor>; d = x - of_int f
      in if d < 1 / 2 then f else if 1 / 2 < d then f + 1 else if even f then f else f + 1)"

text \<open>Rounding to a float: to a multiple of \<open>2\<^sup>e\<^sup>-\<^sup>5\<^sup>2\<close>, where \<open>e\<close> is the exponent.\<close>

definition fl :: "rat \<Rightarrow> rat" where
  "fl x = (if x = 0 then 0
           else let q = 2 powi (float_exp x - 52) in of_int (round_half_even (x / q)) * q)"

text \<open>
  A number is an \<open>int\<close> or a \<open>float\<close>.  Arithmetic on two ints is exact and gives an int;
  with a float on either side the int is converted (\<open>float(i)\<close>, rounded) and the result is
  a float.  Comparisons of an int and a float compare the exact values.
\<close>

datatype pynum = PInt int | PFloat rat

definition value_of :: "pynum \<Rightarrow> rat" where
  "value_of a = (case a of PInt i \<Rightarrow> of_int i | PFloat x \<Rightarrow> x)"

definition as_float :: "pynum \<Rightarrow> rat" where
  "as_float a = (case a of PInt i \<Rightarrow> fl (of_int i) | PFloat x \<Rightarrow> x)"

definition py_add :: "pynum \<Rightarrow> pynum \<Rightarrow> pynum" where
  "py_add a b =
     (case (a, b) of
        (PInt i, PInt j) \<Rightarrow> PInt (i + j)
      | _ \<Rightarrow> PFloat (fl (as_float a + as_float b)))"

definition py_sub :: "pynum \<Rightarrow> pynum \<Rightarrow> pynum" where
  "py_sub a b =
     (case (a, b) of
        (PInt i, PInt j) \<Rightarrow> PInt (i - j)
      | _ \<Rightarrow> PFloat (fl (as_float a - as_float b)))"

definition py_mul :: "pynum \<Rightarrow> pynum \<Rightarrow> pynum" where
  "py_mul a b =
     (case (a, b) of
        (PInt i, PInt j) \<Rightarrow> PInt (i * j)
      | _ \<Rightarrow> PFloat (fl (as_float a * as_float b)))"

definition py_less :: "pynum \<Rightarrow> pynum \<Rightarrow> bool" where
  "py_less a b = (value_of a < value_of b)"

definition py_le :: "pynum \<Rightarrow> pynum \<Rightarrow> bool" where
  "py_le a b = (value_of a \<le> value_of b)"

text \<open>\<open>max(a, b)\<close> keeps its first argument unless the second is greater.\<close>

definition py_max :: "pynum \<Rightarrow> pynum \<Rightarrow> pynum" where
  "py_max a b = (if py_less a b then b else a)"

text \<open>\<open>int(round(w))\<close>: Python rounds a float to the nearest integer, a tie to the even one.\<close>

definition py_round :: "pynum \<Rightarrow> int" where
  "py_round a = (case a of PInt i \<Rightarrow> i | PFloat x \<Rightarrow> round_half_even x)"

text \<open>
  The float literals of the source are the floats nearest to the decimal numbers written,
  and \<open>math.pi\<close> is the float nearest to \<open>\<pi>\<close>.
\<close>

definition float_literal :: "rat \<Rightarrow> pynum" where
  "float_literal x = PFloat (fl x)"

definition math_pi :: rat where
  "math_pi = 884279719003555 / 2 ^ 48"

section \<open>The random number generator\<close>

text \<open>
  \<open>random.Random\<close> is the Python library's generator, not code of the repository; the model
  takes its output as given.  A generator is a stream of raw draws and the number of draws
  consumed so far.  \<open>Random(seed)\<close> with an integer seed starts the stream that the seed
  determines (\<open>seeded\<close>); \<open>Random(None)\<close> seeds itself from the operating system's entropy,
  so its stream (\<open>entropy\<close>) belongs to the call, not to its arguments.  \<open>math.log\<close> and
  \<open>math.sqrt\<close> are the functions of the C library on floats; their values are taken as given
  too (\<open>math_log\<close>, \<open>math_sqrt\<close>).
\<close>

type_synonym rng = "(nat \<Rightarrow> nat) \<times> nat"

record world =
  seeded :: "int \<Rightarrow> nat \<Rightarrow> nat"
  entropy :: "nat \<Rightarrow> nat"
  math_log :: "rat \<Rightarrow> rat"
  math_sqrt :: "rat \<Rightarrow> rat"

definition Random :: "world \<Rightarrow> int option \<Rightarrow> rng" where
  "Random w seed = (case seed of None \<Rightarrow> (entropy w, 0) | Some s \<Rightarrow> (seeded w s, 0))"

text \<open>\<open>_randbelow(k)\<close>: an index below \<open>k\<close>.\<close>

definition randbelow :: "nat \<Rightarrow> rng \<Rightarrow> nat \<times> rng" where
  "randbelow k rnd = (case rnd of (f, c) \<Rightarrow> (f c mod k, (f, Suc c)))"

text \<open>\<open>random()\<close>: a multiple of \<open>2^-53\<close> in \<open>[0, 1)\<close>.\<close>

definition random_float :: "rng \<Rightarrow> rat \<times> rng" where
  "random_float rnd = (case rnd of (f, c) \<Rightarrow> (of_nat (f c mod 2 ^ 53) / 2 ^ 53, (f, Suc c)))"

text \<open>
  \<open>uniform(a, b)\<close> is \<^verbatim>\<open>a + (b - a) * self.random()\<close>, in Python's arithmetic: the difference
  is exact when both bounds are ints, the product and the sum are rounded.
\<close>

definition uniform :: "pynum \<Rightarrow> pynum \<Rightarrow> rng \<Rightarrow> pynum \<times> rng" where
  "uniform a b rnd =
     (case random_float rnd of (x, rnd') \<Rightarrow> (py_add a (py_mul (py_sub b a) (PFloat x)), rnd'))"

text \<open>
  \<open>shuffle(x)\<close>: the library's loop
  \<^verbatim>\<open>for i in reversed(range(1, len(x))): j = randbelow(i + 1); x[i], x[j] = x[j], x[i]\<close>.
\<close>

definition shuffle_step :: "nat \<Rightarrow> 'a list \<times> rng \<Rightarrow> 'a list \<times> rng" where
  "shuffle_step i st =
     (case st of (x, rnd) \<Rightarrow>
        (case randbelow (i + 1) rnd of (j, rnd') \<Rightarrow> (x[i := x ! j, j := x ! i], rnd')))"

definition shuffle :: "'a list \<Rightarrow> rng \<Rightarrow> 'a list \<times> rng" where
  "shuffle x rnd = fold shuffle_step (rev [1..<length x]) (x, rnd)"

text \<open>
  \<open>sample(population, k)\<close> raises \<open>ValueError\<close> unless \<open>0 \<le> k \<le> len(population)\<close>.
  Otherwise it has two branches.  A population of at most \<open>setsize\<close> elements is copied to a
  pool, from which \<open>k\<close> elements are drawn without replacement:
  \<^verbatim>\<open>for i in range(k): j = randbelow(n - i); result[i] = pool[j]; pool[j] = pool[n - i - 1]\<close>.
\<close>

definition sample_step :: "nat \<Rightarrow> nat \<Rightarrow> 'a list \<times> 'a list \<times> rng \<Rightarrow> 'a list \<times> 'a list \<times> rng" where
  "sample_step n i st =
     (case st of (result, pool, rnd) \<Rightarrow>
        (case randbelow (n - i) rnd of (j, rnd') \<Rightarrow>
           (result @ [pool ! j], pool[j := pool ! (n - i - 1)], rnd')))"

text \<open>
  A larger population is indexed directly, and an index already selected is drawn again:
  \<^verbatim>\<open>j = randbelow(n)\<close>, \<^verbatim>\<open>while j in selected: j = randbelow(n)\<close>.  Nothing bounds the number
  of draws of this loop.
\<close>

partial_function (option) draw_unselected :: "nat \<Rightarrow> nat set \<Rightarrow> rng \<Rightarrow> (nat \<times> rng) option" where
  "draw_unselected n selected rnd =
     (case randbelow n rnd of (j, rnd') \<Rightarrow>
        if j \<in> selected then draw_unselected n selected rnd' else Some (j, rnd'))"

declare draw_unselected.simps [code]

definition sample_set_step ::
  "'a list \<Rightarrow> nat \<Rightarrow> ('a list \<times> nat set \<times> rng) option \<Rightarrow> ('a list \<times> nat set \<times> rng) option" where
  "sample_set_step population i st =
     (case st of
        None \<Rightarrow> None
      | Some (result, selected, rnd) \<Rightarrow>
         (case draw_unselected (length population) selected rnd of
            None \<Rightarrow> None
          | Some (j, rnd') \<Rightarrow> Some (result @ [population ! j], insert j selected, rnd')))"

text \<open>
  \<^verbatim>\<open>setsize = 21\<close>, and \<^verbatim>\<open>setsize += 4 ** _ceil(_log(k * 3, 4))\<close> if \<open>k > 5\<close>.  \<open>ceil_log4 m\<close> is the
  least \<open>e\<close> with \<open>m \<le> 4\<^sup>e\<close>; \<open>3 * k\<close> is never a power of 4, and the floating-point logarithm
  of the library gives this value for every \<open>k\<close> below \<open>2 ^ 48\<close>.
\<close>

function ceil_log4 :: "nat \<Rightarrow> nat" where
  "ceil_log4 m = (if m \<le> 1 then 0 else Suc (ceil_log4 ((m + 3) div 4)))"
  by pat_completeness auto
termination
  by (relation "measure id") auto

declare ceil_log4.simps [simp del]

definition setsize :: "nat \<Rightarrow> nat" where
  "setsize k = (if 5 < k then 21 + 4 ^ ceil_log4 (k * 3) else 21)"

definition sample :: "'a list \<Rightarrow> int \<Rightarrow> rng \<Rightarrow> (error + 'a list \<times> rng) option" where
  "sample population k rnd =
     (let n = length population
      in if k < 0 \<or> int n < k then Some (Inl ValueError)
         else if n \<le> setsize (nat k)
         then (case fold (sample_step n) [0..<nat k] ([], population, rnd) of
                 (result, pool, rnd') \<Rightarrow> Some (Inr (result, rnd')))
         else (case fold (sample_set_step population) [0..<nat k] (Some ([], {}, rnd)) of
                 None \<Rightarrow> None
               | Some (result, selected, rnd') \<Rightarrow> Some (Inr (result, rnd'))))"

section \<open>Helpers of the generators\<close>

text \<open>
  The generators label their vertices \<open>1, 2, ...\<close>; labels are natural numbers here.  The
  requested size \<open>n_vertices\<close> is any Python integer.
\<close>

definition label :: "nat \<Rightarrow> nat" where
  "label i = i"

text \<open>
  \<open>math.ceil(math.sqrt(n))\<close>, \<open>math.ceil(n / cols)\<close> and \<open>math.ceil(math.log2(n))\<close> on
  the integers: the least \<open>k\<close> with \<open>n \<le> k * k\<close>, the quotient rounded up, and the least
  \<open>d\<close> with \<open>n \<le> 2 ^ d\<close>.  The floating-point computations of the source give these values
  for every size below \<open>2 ^ 49\<close>.
\<close>

function ceil_sqrt_from :: "nat \<Rightarrow> nat \<Rightarrow> nat" where
  "ceil_sqrt_from k n = (if n \<le> k * k then k else ceil_sqrt_from (Suc k) n)"
  by pat_completeness auto
termination
  by (relation "measure (\<lambda>(k, n). n - k * k)") auto

declare ceil_sqrt_from.simps [simp del]

definition ceil_sqrt :: "nat \<Rightarrow> nat" where
  "ceil_sqrt n = ceil_sqrt_from 0 n"

definition ceil_div :: "nat \<Rightarrow> nat \<Rightarrow> nat" where
  "ceil_div n c = (n + c - 1) div c"

function ceil_log2 :: "nat \<Rightarrow> nat" where
  "ceil_log2 m = (if m \<le> 1 then 0 else Suc (ceil_log2 ((m + 1) div 2)))"
  by pat_completeness auto
termination
  by (relation "measure id") auto

declare ceil_log2.simps [simp del]

section \<open>\_assign\_weights\<close>

definition assign_weights_step ::
  "pynum \<Rightarrow> pynum \<Rightarrow> bool \<Rightarrow> pynum \<Rightarrow> nat \<times> nat \<Rightarrow> (nat \<times> nat \<times> int) list \<times> rng
     \<Rightarrow> (nat \<times> nat \<times> int) list \<times> rng" where
  "assign_weights_step w_min w_max controlled long_tail_frac e st =
     (case st of (weighted, rnd) \<Rightarrow>
       (case e of (u, v) \<Rightarrow>
         (case (if \<not> controlled then uniform w_min w_max rnd
                else (case random_float rnd of (x, rnd1) \<Rightarrow>
                        if py_less (PFloat x) long_tail_frac
                        then uniform (py_add (py_mul w_max (float_literal (6 / 10))) (PInt 1))
                               w_max rnd1
                        else uniform w_min
                               (py_max (py_add w_min (PInt 1))
                                  (py_mul w_max (float_literal (3 / 10)))) rnd1))
          of (wt, rnd') \<Rightarrow> (weighted @ [(u, v, py_round wt)], rnd'))))"

definition assign_weights ::
  "world \<Rightarrow> (nat \<times> nat) list \<Rightarrow> int option \<Rightarrow> pynum \<Rightarrow> pynum \<Rightarrow> bool \<Rightarrow> pynum
     \<Rightarrow> (nat \<times> nat \<times> int) list" where
  "assign_weights w edges seed w_min w_max controlled long_tail_frac =
     fst (fold (assign_weights_step w_min w_max controlled long_tail_frac) edges
            ([], Random w seed))"

section \<open>grid\_graph\<close>

text \<open>
  Lines 62-63 (and 100-101): the dimensions.  \<open>math.sqrt\<close> of a negative number raises
  \<open>ValueError\<close>; \<open>n / cols\<close> with \<open>cols = 0\<close> raises \<open>ZeroDivisionError\<close>.
\<close>

definition grid_dims :: "int \<Rightarrow> error + nat \<times> nat" where
  "grid_dims n =
     (if n < 0 then Inl ValueError
      else let cols = ceil_sqrt (nat n)
           in if cols = 0 then Inl ZeroDivisionError
              else Inr (cols, ceil_div (nat n) cols))"

text \<open>Lines 66-70 (and 102): the first \<open>n\<close> cells in row-major order.\<close>

definition grid_coords :: "nat \<Rightarrow> nat \<Rightarrow> nat \<Rightarrow> (nat \<times> nat) list" where
  "grid_coords n cols rows = take n (List.product [0..<rows] [0..<cols])"

text \<open>
  \<open>index_of\<close>: the dictionary from a cell to its position.  The cells are distinct, so the
  dictionary's items are the cells with their positions, in this order.
\<close>

definition index_of :: "(nat \<times> nat) list \<Rightarrow> (nat \<times> nat) \<rightharpoonup> nat" where
  "index_of coords = map_of (zip coords [0..<length coords])"

text \<open>
  The edge from position \<open>i\<close> to the cell \<open>k\<close>, when \<open>k\<close> is a key of \<open>index_of\<close>.
\<close>

definition edge_to :: "(nat \<times> nat) list \<Rightarrow> nat list \<Rightarrow> nat \<Rightarrow> nat \<times> nat \<Rightarrow> (nat \<times> nat) list" where
  "edge_to coords vertices i k =
     (case index_of coords k of None \<Rightarrow> [] | Some t \<Rightarrow> [(vertices ! i, vertices ! t)])"

text \<open>
  Lines 76-87, for one item.  The cell \<open>(r+1, c-1)\<close> with \<open>c = 0\<close> has the column \<open>-1\<close>,
  which is no key.
\<close>

definition grid_edges_at ::
  "(nat \<times> nat) list \<Rightarrow> nat list \<Rightarrow> bool \<Rightarrow> (nat \<times> nat) \<times> nat \<Rightarrow> (nat \<times> nat) list" where
  "grid_edges_at coords vertices connect_diagonals item =
     (case item of ((r, c), i) \<Rightarrow>
        edge_to coords vertices i (r, c + 1) @
        edge_to coords vertices i (r + 1, c) @
        (if connect_diagonals
         then edge_to coords vertices i (r + 1, c + 1) @
              (if c = 0 then [] else edge_to coords vertices i (r + 1, c - 1))
         else []))"

definition grid_graph ::
  "world \<Rightarrow> int \<Rightarrow> int option \<Rightarrow> bool \<Rightarrow> error + nat list \<times> (nat \<times> nat) list" where
  "grid_graph w n_vertices seed connect_diagonals =
     (let rnd = Random w seed
      in case grid_dims n_vertices of
           Inl e \<Rightarrow> Inl e
         | Inr (cols, rows) \<Rightarrow>
            (let coords = grid_coords (nat n_vertices) cols rows;
                 vertices = map (\<lambda>i. label (i + 1)) [0..<length coords];
                 edges = concat (map (grid_edges_at coords vertices connect_diagonals)
                                   (zip coords [0..<length coords]))
             in Inr (vertices, edges)))"

section \<open>grid\_maze\_like\<close>

text \<open>
  \<open>find\<close> (lines 119-123), with the \<open>parent\<close> list passed in and returned.  The loop has no
  bound of its own: the function is partial, \<open>None\<close> is a loop that never ends.
\<close>

partial_function (option) find_uf :: "nat list \<Rightarrow> nat \<Rightarrow> (error + nat \<times> nat list) option" where
  "find_uf parent a =
     (if length parent \<le> a then Some (Inl IndexError)
      else if parent ! a = a then Some (Inr (a, parent))
      else if length parent \<le> parent ! a then Some (Inl IndexError)
      else find_uf (parent[a := parent ! (parent ! a)]) (parent ! (parent ! a)))"

declare find_uf.simps [code]

text \<open>\<open>union\<close> (lines 124-126).\<close>

definition union_uf :: "nat list \<Rightarrow> nat \<Rightarrow> nat \<Rightarrow> (error + nat list) option" where
  "union_uf parent a b =
     (case find_uf parent a of
        None \<Rightarrow> None
      | Some (Inl e) \<Rightarrow> Some (Inl e)
      | Some (Inr (ra, parent1)) \<Rightarrow>
         (case find_uf parent1 b of
            None \<Rightarrow> None
          | Some (Inl e) \<Rightarrow> Some (Inl e)
          | Some (Inr (rb, parent2)) \<Rightarrow>
             if length parent2 \<le> ra then Some (Inl IndexError)
             else Some (Inr (parent2[ra := rb]))))"

text \<open>Lines 131-136: one edge of the spanning-tree loop, on the state \<open>(parent, edges)\<close>.\<close>

definition tree_step ::
  "nat \<times> nat \<Rightarrow> (error + nat list \<times> (nat \<times> nat) list) option
     \<Rightarrow> (error + nat list \<times> (nat \<times> nat) list) option" where
  "tree_step e st =
     (case st of
        None \<Rightarrow> None
      | Some (Inl err) \<Rightarrow> Some (Inl err)
      | Some (Inr (parent, edges)) \<Rightarrow>
         (case e of (u, v) \<Rightarrow>
           (let ui = u - 1; vi = v - 1
            in case find_uf parent ui of
                 None \<Rightarrow> None
               | Some (Inl err) \<Rightarrow> Some (Inl err)
               | Some (Inr (ru, parent1)) \<Rightarrow>
                  (case find_uf parent1 vi of
                     None \<Rightarrow> None
                   | Some (Inl err) \<Rightarrow> Some (Inl err)
                   | Some (Inr (rv, parent2)) \<Rightarrow>
                      if ru \<noteq> rv
                      then (case union_uf parent2 ui vi of
                              None \<Rightarrow> None
                            | Some (Inl err) \<Rightarrow> Some (Inl err)
                            | Some (Inr parent3) \<Rightarrow> Some (Inr (parent3, edges @ [(u, v)])))
                      else Some (Inr (parent2, edges))))))"

text \<open>Lines 106-114: the candidate edges of the grid.\<close>

definition maze_possible :: "nat \<Rightarrow> nat \<Rightarrow> nat \<Rightarrow> nat list \<Rightarrow> (nat \<times> nat) list" where
  "maze_possible n cols rows vertices =
     (let coords = grid_coords n cols rows
      in concat (map (\<lambda>((r, c), i).
                   edge_to coords vertices i (r, c + 1) @ edge_to coords vertices i (r + 1, c))
                 (zip coords [0..<n])))"

text \<open>Lines 116-136: the spanning tree, and the generator after it.\<close>

definition maze_tree ::
  "nat \<Rightarrow> (nat \<times> nat) list \<Rightarrow> rng \<Rightarrow> (error + (nat \<times> nat) list \<times> rng) option" where
  "maze_tree n possible rnd =
     (case shuffle possible rnd of (shuffled, rnd') \<Rightarrow>
        (case fold tree_step shuffled (Some (Inr ([0..<n], []))) of
           None \<Rightarrow> None
         | Some (Inl err) \<Rightarrow> Some (Inl err)
         | Some (Inr (parent, edges)) \<Rightarrow> Some (Inr (edges, rnd'))))"

text \<open>
  Lines 138-141: the extra edges.  \<open>int(0.15 * len(possible))\<close> is \<open>15 * len(possible)\<close>
  divided by 100 and rounded down (the floating-point product gives this value for every
  length below \<open>2 ^ 49\<close>).
\<close>

definition maze_candidates :: "(nat \<times> nat) list \<Rightarrow> (nat \<times> nat) list \<Rightarrow> (nat \<times> nat) list" where
  "maze_candidates possible edges =
     filter (\<lambda>e. e \<notin> set edges \<and> (snd e, fst e) \<notin> set edges) possible"

definition maze_extras :: "(nat \<times> nat) list \<Rightarrow> (nat \<times> nat) list \<Rightarrow> rng \<Rightarrow> (nat \<times> nat) list" where
  "maze_extras possible edges rnd =
     (let extras = (15 * length possible) div 100;
          candidates = maze_candidates possible edges
      in take extras (fst (shuffle candidates rnd)))"

definition grid_maze_like ::
  "world \<Rightarrow> int \<Rightarrow> int option \<Rightarrow> (error + nat list \<times> (nat \<times> nat) list) option" where
  "grid_maze_like w n_vertices seed =
     (case grid_graph w n_vertices seed False of
        Inl e \<Rightarrow> Some (Inl e)
      | Inr (vertices, unused) \<Rightarrow>
         (let n = length vertices
          in case grid_dims (int n) of
               Inl e \<Rightarrow> Some (Inl e)
             | Inr (cols, rows) \<Rightarrow>
                (let possible = maze_possible n cols rows vertices
                 in case maze_tree n possible (Random w seed) of
                      None \<Rightarrow> None
                    | Some (Inl e) \<Rightarrow> Some (Inl e)
                    | Some (Inr (edges, rnd)) \<Rightarrow>
                        Some (Inr (vertices, edges @ maze_extras possible edges rnd)))))"

section \<open>random\_geometric\_graph\<close>

text \<open>Line 153: the points, two draws each.\<close>

definition draw_point :: "nat \<Rightarrow> (rat \<times> rat) list \<times> rng \<Rightarrow> (rat \<times> rat) list \<times> rng" where
  "draw_point i st =
     (case st of (points, rnd) \<Rightarrow>
        (case random_float rnd of (x, rnd1) \<Rightarrow>
           (case random_float rnd1 of (y, rnd2) \<Rightarrow> (points @ [(x, y)], rnd2))))"

definition draw_points :: "nat \<Rightarrow> rng \<Rightarrow> (rat \<times> rat) list" where
  "draw_points n rnd = fst (fold draw_point [0..<n] ([], rnd))"

text \<open>
  Lines 154-157: the default radius,
  \<^verbatim>\<open>factor * math.sqrt(max(1e-9, math.log(max(2, n_vertices)) / (math.pi * n_vertices)))\<close>
  with \<open>factor = 1.5\<close>.  The division of floats raises \<open>ZeroDivisionError\<close> when the divisor
  is zero, which it is for \<open>n_vertices = 0\<close>.
\<close>

definition default_radius :: "world \<Rightarrow> int \<Rightarrow> error + pynum" where
  "default_radius w n =
     (let l = math_log w (as_float (PInt (max 2 n)));
          d = as_float (py_mul (PFloat math_pi) (PInt n))
      in if d = 0 then Inl ZeroDivisionError
         else let q = fl (l / d);
                  m = (if fl (1 / 10 ^ 9) < q then q else fl (1 / 10 ^ 9))
              in Inr (py_mul (PFloat (3 / 2)) (PFloat (math_sqrt w m))))"

text \<open>
  Lines 160-167: the pairs \<open>i < j\<close> with \<^verbatim>\<open>dx*dx + dy*dy <= radius*radius\<close>, in floating-point
  arithmetic on the left; the radius is any number.
\<close>

definition geometric_edges :: "(rat \<times> rat) list \<Rightarrow> nat list \<Rightarrow> pynum \<Rightarrow> nat \<Rightarrow> (nat \<times> nat) list" where
  "geometric_edges points vertices radius n =
     concat (map (\<lambda>i. concat (map (\<lambda>j.
         (case (points ! i, points ! j) of ((xi, yi), (xj, yj)) \<Rightarrow>
            let dx = fl (xi - xj); dy = fl (yi - yj)
            in if py_le (PFloat (fl (fl (dx * dx) + fl (dy * dy)))) (py_mul radius radius)
               then [(vertices ! i, vertices ! j)] else []))
       [i + 1..<n])) [0..<n])"

definition random_geometric_graph ::
  "world \<Rightarrow> int \<Rightarrow> int option \<Rightarrow> pynum option \<Rightarrow> error + nat list \<times> (nat \<times> nat) list" where
  "random_geometric_graph w n_vertices seed radius =
     (let rnd = Random w seed;
          n = nat n_vertices;
          points = draw_points n rnd
      in case (case radius of None \<Rightarrow> default_radius w n_vertices | Some r \<Rightarrow> Inr r) of
           Inl e \<Rightarrow> Inl e
         | Inr radius' \<Rightarrow>
            (let vertices = map (\<lambda>i. label (i + 1)) [0..<n]
             in Inr (vertices, geometric_edges points vertices radius' n)))"

section \<open>hypercube\_graph\<close>

text \<open>Lines 203-205: the adjacency lists, in the order of the \<open>append\<close>s.\<close>

definition adj_of :: "(nat \<times> nat) list \<Rightarrow> nat \<Rightarrow> nat list" where
  "adj_of edges x =
     concat (map (\<lambda>(u, v). (if u = x then [v] else []) @ (if v = x then [u] else [])) edges)"

text \<open>Lines 211-213: the neighbours of the vertex taken from the queue.\<close>

definition visit :: "nat \<Rightarrow> nat set \<times> nat list \<Rightarrow> nat set \<times> nat list" where
  "visit nb st =
     (case st of (visited, q) \<Rightarrow>
        if nb \<notin> visited then (insert nb visited, q @ [nb]) else (visited, q))"

lemma visit_fold_mono:
  "fold visit nbs (visited, q) = (visited', q') \<Longrightarrow>
     visited \<subseteq> visited' \<and> visited' \<subseteq> visited \<union> set nbs \<and>
     (visited' = visited \<longrightarrow> q' = q)"
proof (induction nbs arbitrary: visited q)
  case Nil
  then show ?case by simp
next
  case (Cons nb nbs)
  show ?case
  proof (cases "nb \<in> visited")
    case True
    then have "visit nb (visited, q) = (visited, q)" by (simp add: visit_def)
    with Cons.prems have "fold visit nbs (visited, q) = (visited', q')" by simp
    from Cons.IH[OF this] show ?thesis by auto
  next
    case False
    then have "visit nb (visited, q) = (insert nb visited, q @ [nb])" by (simp add: visit_def)
    with Cons.prems have "fold visit nbs (insert nb visited, q @ [nb]) = (visited', q')" by simp
    from Cons.IH[OF this] False show ?thesis by auto
  qed
qed

lemma adj_of_Nil: "adj_of [] x = []"
  by (simp add: adj_of_def)

lemma adj_of_Cons:
  "adj_of ((u, v) # edges) x =
     (if u = x then [v] else []) @ (if v = x then [u] else []) @ adj_of edges x"
  by (simp add: adj_of_def)

lemma set_adj_of_Cons:
  "set (adj_of ((u, v) # edges) x) =
     (if u = x then {v} else {}) \<union> (if v = x then {u} else {}) \<union> set (adj_of edges x)"
  unfolding adj_of_Cons by (cases "u = x"; cases "v = x"; simp)

lemma set_adj_of_iff: "(nb \<in> set (adj_of edges x)) = ((x, nb) \<in> set edges \<or> (nb, x) \<in> set edges)"
proof (induction edges)
  case Nil
  show ?case by (simp add: adj_of_Nil)
next
  case (Cons a edges)
  obtain u v where a: "a = (u, v)" by (cases a) auto
  show ?case
    unfolding a set_adj_of_Cons using Cons.IH
    by (cases "u = x"; cases "v = x"; auto)
qed

lemma set_adj_of: "set (adj_of edges x) \<subseteq> fst ` set edges \<union> snd ` set edges"
proof
  fix nb assume "nb \<in> set (adj_of edges x)"
  then have "(x, nb) \<in> set edges \<or> (nb, x) \<in> set edges" by (simp add: set_adj_of_iff)
  then show "nb \<in> fst ` set edges \<union> snd ` set edges" by force
qed

text \<open>Lines 209-213: the breadth-first search, from the queue and the visited set.\<close>

function bfs :: "(nat \<times> nat) list \<Rightarrow> nat list \<Rightarrow> nat set \<Rightarrow> nat set" where
  "bfs edges [] visited = visited"
| "bfs edges (x # q) visited =
     (case fold visit (adj_of edges x) (visited, q) of (visited', q') \<Rightarrow> bfs edges q' visited')"
  by pat_completeness auto
termination
proof (relation "(\<lambda>(edges, q, visited). card ((fst ` set edges \<union> snd ` set edges) - visited))
                   <*mlex*> measure (\<lambda>(edges, q, visited). length q)", goal_cases)
  case 1
  show ?case by (simp add: wf_mlex)
next
  case (2 edges x q visited visited' q')
  then have f: "fold visit (adj_of edges x) (visited, q) = (visited', q')" by simp
  let ?U = "fst ` set edges \<union> snd ` set edges"
  from visit_fold_mono[OF f] set_adj_of[of edges x]
  have sub: "visited \<subseteq> visited'" and new: "visited' \<subseteq> visited \<union> ?U"
    and same: "visited' = visited \<longrightarrow> q' = q" by auto
  show ?case
  proof (cases "visited' = visited")
    case True
    with same show ?thesis by (simp add: mlex_iff)
  next
    case False
    with sub have "\<exists>y. y \<in> visited' \<and> y \<notin> visited" by blast
    then obtain y where "y \<in> visited'" "y \<notin> visited" by blast
    with new have y: "y \<in> visited'" "y \<notin> visited" "y \<in> ?U" by blast+
    have "?U - visited' \<subset> ?U - visited" using sub y by auto
    then have "card (?U - visited') < card (?U - visited)"
      by (intro psubset_card_mono) auto
    then show ?thesis by (simp add: mlex_iff)
  qed
qed

text \<open>Lines 193-198: the edges of one surviving vertex, to its larger surviving neighbours.\<close>

definition cube_edges_at :: "(nat \<rightharpoonup> nat) \<Rightarrow> nat \<Rightarrow> nat \<Rightarrow> (nat \<times> nat) list" where
  "cube_edges_at index_map d b =
     concat (map (\<lambda>bit.
        let nb = xor b (push_bit bit 1)
        in (case (index_map b, index_map nb) of
              (Some lb, Some lnb) \<Rightarrow> if b < nb then [(lb, lnb)] else []
            | _ \<Rightarrow> [])) [0..<d])"

text \<open>Lines 201-218: the search from the first vertex, and the pruning.\<close>

definition prune_component :: "nat list \<Rightarrow> (nat \<times> nat) list \<Rightarrow> nat list \<times> (nat \<times> nat) list" where
  "prune_component vertices edges =
     (case vertices of
        [] \<Rightarrow> (vertices, edges)
      | start # rest \<Rightarrow>
         (let visited = bfs edges [start] {start}
          in if card visited < length vertices
             then (filter (\<lambda>v. v \<in> visited) vertices,
                   filter (\<lambda>(u, v). u \<in> visited \<and> v \<in> visited) edges)
             else (vertices, edges)))"

text \<open>
  Lines 177-220.  The call returns unless \<open>sample\<close> draws forever; \<open>None\<close> is the call that
  does not return.
\<close>

definition hypercube_graph ::
  "world \<Rightarrow> int \<Rightarrow> int option \<Rightarrow> (error + nat list \<times> (nat \<times> nat) list) option" where
  "hypercube_graph w n_vertices seed =
     (let rnd = Random w seed;
          d = ceil_log2 (nat (max 1 n_vertices));
          N = (2::nat) ^ d;
          vertices_binary = [0..<N]
      in case (if int N > n_vertices
               then (case sample vertices_binary (int N - n_vertices) rnd of
                       None \<Rightarrow> None
                     | Some (Inl e) \<Rightarrow> Some (Inl e)
                     | Some (Inr (to_remove, rnd')) \<Rightarrow>
                         Some (Inr (filter (\<lambda>v. v \<notin> set to_remove) vertices_binary)))
               else Some (Inr vertices_binary)) of
           None \<Rightarrow> None
         | Some (Inl e) \<Rightarrow> Some (Inl e)
         | Some (Inr vertices_binary') \<Rightarrow>
            (let index_map = map_of (zip vertices_binary'
                                       (map (\<lambda>i. i + 1) [0..<length vertices_binary']));
                 vertices = map (\<lambda>b. the (index_map b)) vertices_binary';
                 edges = concat (map (cube_edges_at index_map d) vertices_binary')
             in Some (Inr (prune_component vertices edges))))"

section \<open>make\_all\_graphs\<close>

record entry =
  e_vertices :: "nat list"
  e_edges :: "(nat \<times> nat \<times> int) list"
  raw_edges :: nat
  actual_vertices :: "nat option"

definition build_weighted_graph ::
  "world \<Rightarrow> nat list \<Rightarrow> (nat \<times> nat) list \<Rightarrow> int option \<Rightarrow> pynum \<Rightarrow> pynum \<Rightarrow> bool
     \<Rightarrow> nat list \<times> (nat \<times> nat \<times> int) list" where
  "build_weighted_graph w vertices edges_pairs seed w_min w_max controlled =
     (vertices, assign_weights w edges_pairs seed w_min w_max controlled (float_literal (5 / 100)))"

text \<open>Lines 246-248, 251-253, 256-258 and 261-263: the four entries of one size.\<close>

definition grid_entry :: "world \<Rightarrow> int \<Rightarrow> int \<Rightarrow> pynum \<Rightarrow> pynum \<Rightarrow> bool \<Rightarrow> error + entry" where
  "grid_entry w n seed w_min w_max controlled_weights =
     (case grid_graph w n (Some seed) False of
        Inl e \<Rightarrow> Inl e
      | Inr (v_g, e_g) \<Rightarrow>
         (case build_weighted_graph w v_g e_g (Some (seed + 1 + n)) w_min w_max controlled_weights of
            (vs, ws) \<Rightarrow>
              Inr \<lparr> e_vertices = vs, e_edges = ws, raw_edges = length e_g,
                    actual_vertices = None \<rparr>))"

definition maze_entry :: "world \<Rightarrow> int \<Rightarrow> int \<Rightarrow> pynum \<Rightarrow> pynum \<Rightarrow> bool \<Rightarrow> (error + entry) option" where
  "maze_entry w n seed w_min w_max controlled_weights =
     (case grid_maze_like w n (Some seed) of
        None \<Rightarrow> None
      | Some (Inl e) \<Rightarrow> Some (Inl e)
      | Some (Inr (v_m, e_m)) \<Rightarrow>
         (case build_weighted_graph w v_m e_m (Some (seed + 2 + n)) w_min w_max controlled_weights of
            (vs, ws) \<Rightarrow>
              Some (Inr \<lparr> e_vertices = vs, e_edges = ws, raw_edges = length e_m,
                          actual_vertices = None \<rparr>)))"

definition geometric_entry :: "world \<Rightarrow> int \<Rightarrow> int \<Rightarrow> pynum \<Rightarrow> pynum \<Rightarrow> bool \<Rightarrow> error + entry" where
  "geometric_entry w n seed w_min w_max controlled_weights =
     (case random_geometric_graph w n (Some seed) None of
        Inl e \<Rightarrow> Inl e
      | Inr (v_r, e_r) \<Rightarrow>
         (case build_weighted_graph w v_r e_r (Some (seed + 3 + n)) w_min w_max controlled_weights of
            (vs, ws) \<Rightarrow>
              Inr \<lparr> e_vertices = vs, e_edges = ws, raw_edges = length e_r,
                    actual_vertices = None \<rparr>))"

definition hypercube_entry ::
  "world \<Rightarrow> int \<Rightarrow> int \<Rightarrow> pynum \<Rightarrow> pynum \<Rightarrow> bool \<Rightarrow> (error + entry) option" where
  "hypercube_entry w n seed w_min w_max controlled_weights =
     (case hypercube_graph w n (Some seed) of
        None \<Rightarrow> None
      | Some (Inl e) \<Rightarrow> Some (Inl e)
      | Some (Inr (v_h, e_h)) \<Rightarrow>
         (case build_weighted_graph w v_h e_h (Some (seed + 4 + n)) w_min w_max controlled_weights of
            (vs, ws) \<Rightarrow>
              Some (Inr \<lparr> e_vertices = vs, e_edges = ws, raw_edges = length e_h,
                          actual_vertices = Some (length v_h) \<rparr>)))"

text \<open>
  The result of \<open>make_all_graphs\<close>: for each kind, the dictionary from a size to its entry.
\<close>

record all_graphs =
  grid :: "int \<rightharpoonup> entry"
  maze :: "int \<rightharpoonup> entry"
  geometric :: "int \<rightharpoonup> entry"
  hypercube :: "int \<rightharpoonup> entry"

definition make_size ::
  "world \<Rightarrow> int \<Rightarrow> pynum \<Rightarrow> pynum \<Rightarrow> bool \<Rightarrow> int \<Rightarrow> (error + all_graphs) option
     \<Rightarrow> (error + all_graphs) option" where
  "make_size w seed w_min w_max controlled_weights n st =
     (case st of
        None \<Rightarrow> None
      | Some (Inl e) \<Rightarrow> Some (Inl e)
      | Some (Inr result) \<Rightarrow>
         (case grid_entry w n seed w_min w_max controlled_weights of
            Inl e \<Rightarrow> Some (Inl e)
          | Inr g \<Rightarrow>
             (case maze_entry w n seed w_min w_max controlled_weights of
                None \<Rightarrow> None
              | Some (Inl e) \<Rightarrow> Some (Inl e)
              | Some (Inr m) \<Rightarrow>
                 (case geometric_entry w n seed w_min w_max controlled_weights of
                    Inl e \<Rightarrow> Some (Inl e)
                  | Inr r \<Rightarrow>
                     (case hypercube_entry w n seed w_min w_max controlled_weights of
                        None \<Rightarrow> None
                      | Some (Inl e) \<Rightarrow> Some (Inl e)
                      | Some (Inr h) \<Rightarrow>
                         Some (Inr \<lparr> grid = (grid result)(n \<mapsto> g),
                                     maze = (maze result)(n \<mapsto> m),
                                     geometric = (geometric result)(n \<mapsto> r),
                                     hypercube = (hypercube result)(n \<mapsto> h) \<rparr>))))))"

definition make_all_graphs ::
  "world \<Rightarrow> int list \<Rightarrow> int \<Rightarrow> pynum \<Rightarrow> pynum \<Rightarrow> bool \<Rightarrow> (error + all_graphs) option" where
  "make_all_graphs w sizes seed w_min w_max controlled_weights =
     fold (make_size w seed w_min w_max controlled_weights) sizes
       (Some (Inr \<lparr> grid = Map.empty, maze = Map.empty, geometric = Map.empty,
                    hypercube = Map.empty \<rparr>))"

section \<open>Concrete generators, for examples\<close>


definition world_b :: world where
  "world_b = \<lparr> seeded = (\<lambda>s k. nat \<bar>s\<bar> * 7 + k * k * 13 + 5), entropy = (\<lambda>k. 1),
               math_log = (\<lambda>x. 1), math_sqrt = (\<lambda>x. 1) \<rparr>"


definition counting :: "nat \<Rightarrow> nat" where
  "counting k = (if k < 6 then [1, 1, 2, 4, 8, 16] ! k else k)"

definition world_c :: world where
  "world_c = \<lparr> seeded = (\<lambda>s. counting), entropy = counting,
               math_log = (\<lambda>x. 1), math_sqrt = (\<lambda>x. 1) \<rparr>"

section \<open>Notions used in the statements\<close>





text \<open>
  A stream is recurrent below \<open>N\<close> when each index below \<open>N\<close> is drawn again after every
  position: the draws never stay inside a proper part of the indices.
\<close>

definition recurrent :: "nat \<Rightarrow> (nat \<Rightarrow> nat) \<Rightarrow> bool" where
  "recurrent N f \<longleftrightarrow> (\<forall>c. \<forall>j<N. \<exists>c'\<ge>c. f c' mod N = j)"
section \<open>Properties of the path reconstruction\<close>

lemma wf_prox_row: "wf_prox n prox \<Longrightarrow> a < n \<Longrightarrow> length (prox ! a) = n"
  by (simp add: wf_prox_def list_all_length)

lemma wf_prox_entry:
  assumes "wf_prox n prox" "a < n" "j < n" "prox ! a ! j = Some b"
  shows "b < n"
proof -
  have "list_all (\<lambda>x. case x of None \<Rightarrow> True | Some k \<Rightarrow> k < n) (prox ! a)"
    using assms(1,2) by (simp add: wf_prox_def list_all_length)
  moreover have "j < length (prox ! a)"
    using wf_prox_row[OF assms(1,2)] assms(3) by simp
  ultimately have "case prox ! a ! j of None \<Rightarrow> True | Some k \<Rightarrow> k < n"
    by (simp add: list_all_length)
  with assms(4) show ?thesis by simp
qed

lemma walk_step_Some:
  "a \<noteq> j \<Longrightarrow> a < length vertices \<Longrightarrow> a < length prox \<Longrightarrow> j < length (prox ! a) \<Longrightarrow>
   prox ! a ! j = Some b \<Longrightarrow>
   walk j prox vertices a caminho = walk j prox vertices b (caminho @ [vertices ! a])"
  by (subst walk.simps) simp

lemma walk_step_None:
  "a \<noteq> j \<Longrightarrow> a < length vertices \<Longrightarrow> a < length prox \<Longrightarrow> j < length (prox ! a) \<Longrightarrow>
   prox ! a ! j = None \<Longrightarrow>
   walk j prox vertices a caminho = Some (Inr (PyTuple PyNone PyInf))"
  by (subst walk.simps) simp

lemma walk_end:
  "j < length vertices \<Longrightarrow>
   walk j prox vertices j caminho = Some (Inr (PyList (caminho @ [vertices ! j])))"
  by (subst walk.simps) simp

lemma walk_unset:
  assumes wf: "wf_prox (length vertices) prox" and j: "j < length vertices"
  shows "unset_ahead prox j a \<Longrightarrow> a < length vertices \<Longrightarrow>
         walk j prox vertices a caminho = Some (Inr (PyTuple PyNone PyInf))"
proof (induction arbitrary: caminho rule: unset_ahead.induct)
  case (unset_here a)
  have "a < length prox" using wf unset_here.prems by (simp add: wf_prox_def)
  moreover have "j < length (prox ! a)" using wf_prox_row[OF wf unset_here.prems] j by simp
  ultimately show ?case using unset_here by (simp add: walk_step_None)
next
  case (unset_later a b)
  have b: "b < length vertices" using wf_prox_entry[OF wf unset_later.prems j unset_later.hyps(2)] .
  have "a < length prox" using wf unset_later.prems by (simp add: wf_prox_def)
  moreover have "j < length (prox ! a)" using wf_prox_row[OF wf unset_later.prems] j by simp
  ultimately have "walk j prox vertices a caminho = walk j prox vertices b (caminho @ [vertices ! a])"
    using unset_later.hyps(1,2) unset_later.prems by (simp add: walk_step_Some)
  then show ?case using unset_later.IH[OF b] by simp
qed

lemma walk_reaches:
  assumes wf: "wf_prox (length vertices) prox" and j: "j < length vertices"
  shows "reaches prox j a ls \<Longrightarrow> a < length vertices \<Longrightarrow>
         walk j prox vertices a caminho = Some (Inr (PyList (caminho @ map ((!) vertices) ls)))"
proof (induction arbitrary: caminho rule: reaches.induct)
  case reaches_end
  then show ?case using j by (simp add: walk_end)
next
  case (reaches_step a b ls)
  have b: "b < length vertices" using wf_prox_entry[OF wf reaches_step.prems j reaches_step.hyps(2)] .
  have "a < length prox" using wf reaches_step.prems by (simp add: wf_prox_def)
  moreover have "j < length (prox ! a)" using wf_prox_row[OF wf reaches_step.prems] j by simp
  ultimately have "walk j prox vertices a caminho = walk j prox vertices b (caminho @ [vertices ! a])"
    using reaches_step.hyps(1,2) reaches_step.prems by (simp add: walk_step_Some)
  then show ?case using reaches_step.IH[OF b, of "caminho @ [vertices ! a]"] by simp
qed

lemma walk_shape:
  "walk j prox vertices a caminho = Some y \<Longrightarrow>
   y = Inl IndexError \<or> y = Inr (PyTuple PyNone PyInf) \<or> (\<exists>ls. y = Inr (PyList ls))"
proof (induction arbitrary: caminho rule: walk.raw_induct[rotated 1, consumes 1])
  case (1 walk' j prox vertices a caminho y)
  show ?case
  proof (cases "a \<noteq> j \<and> a < length vertices \<and> a < length prox \<and> j < length (prox ! a)")
    case True
    show ?thesis
    proof (cases "prox ! a ! j")
      case None
      with True 1(2) show ?thesis by simp
    next
      case (Some nxt)
      with True 1(2) have "walk' j prox vertices nxt (caminho @ [vertices ! a]) = Some y" by simp
      then show ?thesis by (rule 1(1))
    qed
  next
    case False
    with 1(2) show ?thesis by (auto split: if_splits)
  qed
qed

lemma walk_no_IndexError:
  assumes wf: "wf_prox (length vertices) prox" and j: "j < length vertices"
  shows "walk j prox vertices a caminho = Some y \<Longrightarrow> a < length vertices \<Longrightarrow> y \<noteq> Inl IndexError"
proof -
  have "walk j prox vertices a caminho = Some y \<Longrightarrow>
        wf_prox (length vertices) prox \<longrightarrow> j < length vertices \<longrightarrow> a < length vertices
          \<longrightarrow> y \<noteq> Inl IndexError"
  proof (induction arbitrary: caminho rule: walk.raw_induct[rotated 1, consumes 1])
    case (1 walk' j prox vertices a caminho y)
    show ?case
    proof (intro impI)
      assume wf: "wf_prox (length vertices) prox" and j: "j < length vertices"
        and a: "a < length vertices"
      have ap: "a < length prox" using wf a by (simp add: wf_prox_def)
      have jr: "j < length (prox ! a)" using wf_prox_row[OF wf a] j by simp
      show "y \<noteq> Inl IndexError"
      proof (cases "a = j")
        case True
        with 1(2) j show ?thesis by auto
      next
        case False
        show ?thesis
        proof (cases "prox ! a ! j")
          case None
          with False a ap jr 1(2) show ?thesis by auto
        next
          case (Some nxt)
          have nxt: "nxt < length vertices" using wf_prox_entry[OF wf a j Some] .
          from Some False a ap jr 1(2)
          have "walk' j prox vertices nxt (caminho @ [vertices ! a]) = Some y" by simp
          from 1(1)[OF this] wf j nxt show ?thesis by simp
        qed
      qed
    qed
  qed
  then show "walk j prox vertices a caminho = Some y \<Longrightarrow> a < length vertices \<Longrightarrow> y \<noteq> Inl IndexError"
    using wf j by simp
qed

lemma floyd_warshall_G_direcionado:
  "floyd_warshall G_direcionado =
     Inr \<lparr> fw_dist =
            [[Fin 0, Fin 2, Infty, Infty, Infty, Infty],
             [Infty, Fin 0, Infty, Infty, Infty, Infty],
             [Fin (- 5), Fin (- 3), Fin 0, Fin (- 7), Infty, Infty],
             [Fin 2, Fin 4, Infty, Fin 0, Infty, Infty],
             [Fin 5, Fin 7, Fin 10, Fin 3, Fin 0, Fin 4],
             [Fin 3, Fin 5, Infty, Fin 1, Infty, Fin 0]],
           fw_prox =
            [[Some 0, Some 1, None, None, None, None],
             [None, Some 1, None, None, None, None],
             [Some 3, Some 3, Some 2, Some 3, None, None],
             [Some 0, Some 0, None, Some 3, None, None],
             [Some 2, Some 2, Some 2, Some 2, Some 4, Some 5],
             [Some 3, Some 3, None, Some 3, None, Some 5]],
           fw_vertices = [1, 2, 3, 4, 5, 6], fw_alertas = [] \<rparr>"
  by code_simp

text \<open>
  C1.  The scenario of the \<open>__main__\<close> block (labels 1..6, the ten edges of
  \<open>lista_arestas\<close>, directed): \<open>floyd_warshall\<close> returns without raising and prints no
  negative-cycle alert; with \<open>idx_map_fw\<close> resolving the labels 5, 2 and 1 to their canonical
  indices, the distance from 5 to 2 is 7, \<open>reconstruir_caminho_floyd\<close> returns the labels
  \<open>[5, 3, 4, 1, 2]\<close>, and the diagonal entry of label 1 is 0.  The edges are enumerated in
  insertion order; no two of them join the same ordered pair.
\<close>

theorem floyd_main_scenario:
  "(case floyd_warshall G_direcionado of
      Inl e \<Rightarrow> False
    | Inr r \<Rightarrow>
        fw_alertas r = [] \<and>
        (case (index_of_label (fw_vertices r) 5, index_of_label (fw_vertices r) 2,
               index_of_label (fw_vertices r) 1) of
           (Some idx_inicio, Some idx_fim, Some idx_ciclo) \<Rightarrow>
              fw_dist r ! idx_inicio ! idx_fim = Fin 7 \<and>
              reconstruir_caminho_floyd idx_inicio idx_fim (fw_prox r) (fw_vertices r)
                = Some (Inr (PyList [5, 3, 4, 1, 2])) \<and>
              fw_dist r ! idx_ciclo ! idx_ciclo = Fin 0
         | _ \<Rightarrow> False))"
  unfolding floyd_warshall_G_direcionado by code_simp

text \<open>
  C7.  For a next-hop matrix over the canonical indices and canonical indices \<open>i\<close>, \<open>j\<close>:
  when \<open>prox[i][j]\<close> is unset, or the walk from \<open>i\<close> meets an unset entry before it reaches
  \<open>j\<close>, \<open>reconstruir_caminho_floyd\<close> returns the no-path value \<open>(None, inf)\<close>; it raises
  nothing and it does return.
\<close>

theorem reconstruir_unset_no_path:
  assumes "wf_prox (length vertices) prox" and "i < length vertices" and "j < length vertices"
    and "prox ! i ! j = None \<or> unset_ahead prox j i"
  shows "reconstruir_caminho_floyd i j prox vertices = Some (Inr (PyTuple PyNone PyInf))"
proof -
  have ip: "i < length prox" using assms(1,2) by (simp add: wf_prox_def)
  have jr: "j < length (prox ! i)" using wf_prox_row[OF assms(1,2)] assms(3) by simp
  show ?thesis
  proof (cases "prox ! i ! j = None")
    case True
    with ip jr show ?thesis by (simp add: reconstruir_caminho_floyd_def)
  next
    case False
    with assms(4) have "unset_ahead prox j i" by simp
    from walk_unset[OF assms(1) assms(3) this assms(2), of "[]"] False ip jr
    show ?thesis by (simp add: reconstruir_caminho_floyd_def)
  qed
qed

theorem reconstruir_unset_no_path_witness:
  "wf_prox (length [10, 20, 30::int])
     [[Some 0, Some 1, Some 1], [None, Some 1, None], [None, None, Some 2]] \<and>
   unset_ahead [[Some 0, Some 1, Some 1], [None, Some 1, None], [None, None, Some 2]] 2 0 \<and>
   reconstruir_caminho_floyd 0 2
     [[Some 0, Some 1, Some 1], [None, Some 1, None], [None, None, Some 2]] [10, 20, 30]
     = Some (Inr (PyTuple PyNone PyInf))"
proof -
  let ?P = "[[Some 0, Some 1, Some 1], [None, Some 1, None], [None, None, Some (2::nat)]]"
  have wf: "wf_prox (length [10, 20, 30::int]) ?P" by (simp add: wf_prox_def)
  have "unset_ahead ?P 2 1" by (rule unset_here) simp_all
  then have ua: "unset_ahead ?P 2 0" by (rule unset_later[rotated 2]) simp_all
  have "reconstruir_caminho_floyd 0 2 ?P [10, 20, 30] = Some (Inr (PyTuple PyNone PyInf))"
    by (rule reconstruir_unset_no_path[OF wf _ _ disjI2[OF ua]]) simp_all
  with wf ua show ?thesis by blast
qed

text \<open>
  C10.  The two result shapes of \<open>reconstruir_caminho_floyd\<close>, for a next-hop matrix over
  the canonical indices: when it reports no path (\<open>prox[i][j]\<close> unset, or an unset entry met
  during the walk) the result is the pair \<open>(None, inf)\<close>; when the walk reaches \<open>j\<close> the
  result is the bare list of the labels walked through; and whatever it returns is one of
  these two, so a success never carries a cost.
\<close>

theorem reconstruir_result_shape:
  assumes "wf_prox (length vertices) prox" and "i < length vertices" and "j < length vertices"
  shows "(prox ! i ! j = None \<or> unset_ahead prox j i \<longrightarrow>
            reconstruir_caminho_floyd i j prox vertices = Some (Inr (PyTuple PyNone PyInf))) \<and>
         (prox ! i ! j \<noteq> None \<and> reaches prox j i ls \<longrightarrow>
            reconstruir_caminho_floyd i j prox vertices
              = Some (Inr (PyList (map ((!) vertices) ls)))) \<and>
         (\<forall>y. reconstruir_caminho_floyd i j prox vertices = Some y \<longrightarrow>
            y = Inr (PyTuple PyNone PyInf) \<or> (\<exists>caminho. y = Inr (PyList caminho)))"
proof -
  have ip: "i < length prox" using assms(1,2) by (simp add: wf_prox_def)
  have jr: "j < length (prox ! i)" using wf_prox_row[OF assms(1,2)] assms(3) by simp
  have r: "reconstruir_caminho_floyd i j prox vertices =
             (if prox ! i ! j = None then Some (Inr (PyTuple PyNone PyInf))
              else walk j prox vertices i [])"
    using ip jr by (simp add: reconstruir_caminho_floyd_def)
  have a: "prox ! i ! j = None \<or> unset_ahead prox j i \<longrightarrow>
            reconstruir_caminho_floyd i j prox vertices = Some (Inr (PyTuple PyNone PyInf))"
    using walk_unset[OF assms(1) assms(3) _ assms(2), of "[]"] by (auto simp add: r)
  have b: "prox ! i ! j \<noteq> None \<and> reaches prox j i ls \<longrightarrow>
            reconstruir_caminho_floyd i j prox vertices
              = Some (Inr (PyList (map ((!) vertices) ls)))"
    using walk_reaches[OF assms(1) assms(3) _ assms(2), of ls "[]"] by (auto simp add: r)
  have c: "\<forall>y. reconstruir_caminho_floyd i j prox vertices = Some y \<longrightarrow>
            y = Inr (PyTuple PyNone PyInf) \<or> (\<exists>caminho. y = Inr (PyList caminho))"
  proof (intro allI impI)
    fix y assume y: "reconstruir_caminho_floyd i j prox vertices = Some y"
    show "y = Inr (PyTuple PyNone PyInf) \<or> (\<exists>caminho. y = Inr (PyList caminho))"
    proof (cases "prox ! i ! j = None")
      case True
      with y r show ?thesis by simp
    next
      case False
      with y r have w: "walk j prox vertices i [] = Some y" by simp
      from walk_shape[OF w] walk_no_IndexError[OF assms(1) assms(3) w assms(2)]
      show ?thesis by blast
    qed
  qed
  from a b c show ?thesis by blast
qed

theorem reconstruir_result_shape_witness:
  "reconstruir_caminho_floyd 0 2
     [[Some 0, Some 1, Some 1], [None, Some 1, None], [Some 1, Some 1, Some 2]] [10, 20, 30]
     = Some (Inr (PyTuple PyNone PyInf)) \<and>
   reconstruir_caminho_floyd 2 1
     [[Some 0, Some 1, Some 1], [None, Some 1, None], [Some 1, Some 1, Some 2]] [10, 20, 30]
     = Some (Inr (PyList [30, 20]))"
proof -
  let ?P = "[[Some 0, Some 1, Some 1], [None, Some 1, None], [Some 1, Some 1, Some (2::nat)]]"
  let ?V = "[10, 20, 30::int]"
  have wf: "wf_prox (length ?V) ?P" by (simp add: wf_prox_def)
  have "unset_ahead ?P 2 1" by (rule unset_here) simp_all
  then have ua: "unset_ahead ?P 2 0" by (rule unset_later[rotated 2]) simp_all
  have "reaches ?P 1 1 [1]" by (rule reaches_end)
  then have re: "reaches ?P 1 2 [2, 1]" by (rule reaches_step[rotated 2]) simp_all
  have i0: "(0::nat) < length ?V" and i1: "(1::nat) < length ?V" and i2: "(2::nat) < length ?V"
    by simp_all
  from reconstruir_result_shape[OF wf i0 i2, of "[]"] ua
  have 1: "reconstruir_caminho_floyd 0 2 ?P ?V = Some (Inr (PyTuple PyNone PyInf))" by blast
  from reconstruir_result_shape[OF wf i2 i1, of "[2, 1]"] re
  have 2: "reconstruir_caminho_floyd 2 1 ?P ?V = Some (Inr (PyList [30, 20]))" by simp
  from 1 2 show ?thesis by blast
qed

section \<open>Floats\<close>












lemma round_half_even_error: "\<bar>of_int (round_half_even y) - y\<bar> \<le> 1 / 2"
proof -
  have "of_int \<lfloor>y\<rfloor> \<le> y" and "y < of_int \<lfloor>y\<rfloor> + 1" by linarith+
  then show ?thesis by (auto simp add: round_half_even_def Let_def abs_le_iff)
qed

lemma fl_error: "\<bar>fl x - x\<bar> \<le> 2 powi (float_exp x - 53)"
proof (cases "x = 0")
  case True
  then show ?thesis by (simp add: fl_def)
next
  case False
  let ?q = "(2::rat) powi (float_exp x - 52)"
  have q: "0 < ?q" by simp
  define y where "y = x / ?q"
  have x: "x = y * ?q" unfolding y_def using q by simp
  have "fl x - x = (of_int (round_half_even y) - y) * ?q"
    using False by (simp add: fl_def Let_def y_def[symmetric] x[symmetric] algebra_simps)
  then have "\<bar>fl x - x\<bar> = \<bar>of_int (round_half_even y) - y\<bar> * ?q"
    using q by (simp add: abs_mult)
  also have "\<dots> \<le> (1 / 2) * ?q"
    using round_half_even_error[of y] q by (intro mult_right_mono) simp_all
  also have "\<dots> = 2 powi (float_exp x - 53)"
  proof -
    have "float_exp x - 52 = (float_exp x - 53) + 1" by simp
    then have "?q = 2 powi ((float_exp x - 53) + 1)" by (simp only:)
    also have "\<dots> = 2 powi (float_exp x - 53) * 2" by (subst power_int_add) simp_all
    finally show ?thesis by simp
  qed
  finally show ?thesis .
qed


lemma fl_examples:
  "fl (1 / 10) = 3602879701896397 / 2 ^ 55"
  "fl (6 / 10) = 5404319552844595 / 2 ^ 53"
  "fl 9007199254740993 = 9007199254740992"
  "fl 9007199254740995 = 9007199254740996"
  by code_simp+

lemma uniform_near_tie:
  "py_round (fst (uniform (PInt 1) (PInt 20) ((\<lambda>c. 7822041458064545), 0))) = 18"
proof -
  have "random_float ((\<lambda>c. 7822041458064545), 0)
          = (7822041458064545 / 2 ^ 53, ((\<lambda>c. 7822041458064545), Suc 0))"
    by (simp add: random_float_def)
  moreover have "py_round (py_add (PInt 1) (py_mul (py_sub (PInt 20) (PInt 1))
                     (PFloat (7822041458064545 / 2 ^ 53)))) = 18"
    by code_simp
  ultimately show ?thesis by (simp add: uniform_def)
qed

section \<open>Degenerate sizes\<close>

lemma ceil_log2_0 [simp]: "ceil_log2 0 = 0" by (subst ceil_log2.simps) simp
lemma ceil_log2_1 [simp]: "ceil_log2 (Suc 0) = 0" by (subst ceil_log2.simps) simp
lemma ceil_sqrt_0 [simp]: "ceil_sqrt 0 = 0" unfolding ceil_sqrt_def by (subst ceil_sqrt_from.simps) simp
lemma ceil_sqrt_1 [simp]: "ceil_sqrt (Suc 0) = Suc 0"
  unfolding ceil_sqrt_def by (subst ceil_sqrt_from.simps, simp, subst ceil_sqrt_from.simps, simp)



lemma find_uf_root: "a < length parent \<Longrightarrow> parent ! a = a \<Longrightarrow> find_uf parent a = Some (Inr (a, parent))"
  by (subst find_uf.simps) simp







lemma draw_points_0: "draw_points 0 rnd = []" by (simp add: draw_points_def)










text \<open>
  C9.  \<open>grid_graph\<close> builds a generator from its seed and never draws from it: the result
  is the same for any two seeds (and any two states of the world).
\<close>

theorem grid_graph_ignores_seed:
  "grid_graph w1 n s1 connect_diagonals = grid_graph w2 n s2 connect_diagonals"
  by (simp add: grid_graph_def Let_def)

section \<open>The shuffle is a permutation\<close>






section \<open>The grid\<close>


















section \<open>The union-find forest\<close>









section \<open>The spanning-tree loop\<close>









section \<open>The maze generator\<close>

lemma labels_upt: "map (\<lambda>i. label (i + 1)) [0..<m] = map Suc [0..<m]"
  by (simp add: label_def)




section \<open>The extra edges and the connectivity of the maze\<close>











end
